theory Spec2Isabelle
  imports Complex_Main
begin

section \<open>JavaScript values used by the route handlers\<close>

text \<open>
  Request bodies arrive as parsed JSON. A property that may be missing is an
  \<open>option\<close>; JavaScript numbers are modelled by their exact rational value
  (every finite double is a rational; the rounding of double arithmetic is not
  modelled), strings by \<open>string\<close>.
\<close>

definition truthy_str :: "string option \<Rightarrow> bool" where
  \<comment> \<open>truthiness of a string-valued property: undefined, null and the empty string are falsy\<close>
  "truthy_str v = (case v of None \<Rightarrow> False | Some s \<Rightarrow> s \<noteq> [])"

definition or_str :: "string option \<Rightarrow> string option \<Rightarrow> string option" where
  \<comment> \<open>\<open>a || b\<close> on string-valued properties\<close>
  "or_str a b = (if truthy_str a then a else b)"

section \<open>The tables of the hosted database\<close>

text \<open>
  The handlers talk to the database through the query builder
  (\<open>from(table).select/insert/update/delete.eq(...)\<close>). The tables are modelled
  as the handlers see them: \<open>complaints\<close> and \<open>complaint_workflow\<close> are keyed
  by complaint id (\<open>.single()\<close> finds one row or reports an error),
  \<open>complaint_votes\<close> and \<open>complaint_updates\<close> are lists of rows in insertion order;
  \<open>vote_seq\<close> is the next generated id of a vote row.
  Timestamps written by the handlers are not modelled. Infrastructure failures of
  the database (an \<open>error\<close> on a well-formed insert or update) are outside the
  model; a \<open>.single()\<close> that finds no row is modelled.
\<close>

record complaint =
  complaint_status :: string
  vote_count :: "int option"

record workflow =
  step_1_status :: string
  step_1_notes :: "string option"
  step_1_officer_id :: "string option"
  step_2_status :: string
  step_2_notes :: "string option"
  step_2_officer_id :: "string option"
  step_2_estimated_cost :: "rat option"
  step_3_status :: string
  step_3_notes :: "string option"
  step_3_contractor_id :: "string option"

record vote =
  vote_id :: nat
  vote_complaint_id :: string
  vote_user_id :: "string option"
  vote_type :: string

record complaint_update =
  upd_complaint_id :: string
  upd_updated_by_id :: string
  upd_old_status :: "string option"
  upd_new_status :: string
  upd_notes :: string

record db =
  complaints :: "string \<rightharpoonup> complaint"
  complaint_workflow :: "string \<rightharpoonup> workflow"
  complaint_votes :: "vote list"
  vote_seq :: nat
  complaint_updates :: "complaint_update list"

section \<open>Workflow stage reconciler: PUT /complaints/:complaintId/stage/:stageId\<close>

record stage_request =
  rq_complaintId :: string
  rq_stageId :: string
  rq_status :: "string option"
  rq_stage_status :: "string option"
  rq_notes :: "string option"
  rq_estimated_cost :: "rat option"

datatype stage_response =
  StageError nat string
  | StageOk (rs_stage_id: string) (rs_stage_name: string) (rs_stage_status: string)
      (rs_complaint_status: string) (rs_workflow_data: workflow)

definition valid_stage_statuses :: "string list" where
  "valid_stage_statuses = [''pending'', ''in_progress'', ''completed'', ''cancelled'']"

definition stage_name_of :: "string \<Rightarrow> string" where
  \<comment> \<open>\<open>['', 'Initial Review', 'Assessment', 'Resolution'][parseInt(stageId)]\<close>, on a validated stage id\<close>
  "stage_name_of sid =
     (if sid = ''1'' then ''Initial Review''
      else if sid = ''2'' then ''Assessment''
      else if sid = ''3'' then ''Resolution'' else [])"

definition keep_undefined :: "'a option \<Rightarrow> 'a option \<Rightarrow> 'a option" where
  \<comment> \<open>a property that is undefined in \<open>updateData\<close> is not sent, so the column keeps its value\<close>
  "keep_undefined new old = (case new of None \<Rightarrow> old | Some v \<Rightarrow> Some v)"

definition stage_update_data :: "string \<Rightarrow> string \<Rightarrow> stage_request \<Rightarrow> workflow \<Rightarrow> workflow" where
  \<comment> \<open>the row after \<open>update(updateData)\<close>: only the columns of the addressed stage are written\<close>
  "stage_update_data sid actualStatus rq w =
     (if sid = ''1'' then
        w\<lparr>step_1_status := actualStatus, step_1_notes := keep_undefined (rq_notes rq) (step_1_notes w),
          step_1_officer_id := None\<rparr>
      else if sid = ''2'' then
        w\<lparr>step_2_status := actualStatus, step_2_notes := keep_undefined (rq_notes rq) (step_2_notes w),
          step_2_officer_id := None,
          step_2_estimated_cost := keep_undefined (rq_estimated_cost rq) (step_2_estimated_cost w)\<rparr>
      else if sid = ''3'' then
        w\<lparr>step_3_status := actualStatus, step_3_notes := keep_undefined (rq_notes rq) (step_3_notes w),
          step_3_contractor_id := None\<rparr>
      else w)"

definition old_stage_status :: "string \<Rightarrow> workflow \<Rightarrow> string option" where
  \<comment> \<open>\<open>workflow[`step_${stageId}_status`]\<close>\<close>
  "old_stage_status sid w =
     (if sid = ''1'' then Some (step_1_status w)
      else if sid = ''2'' then Some (step_2_status w)
      else if sid = ''3'' then Some (step_3_status w) else None)"

definition allStagesCompleted :: "workflow \<Rightarrow> bool" where
  "allStagesCompleted w =
     (step_1_status w = ''completed'' \<and> step_2_status w = ''completed'' \<and> step_3_status w = ''completed'')"

definition anyStageInProgress :: "workflow \<Rightarrow> bool" where
  "anyStageInProgress w =
     (step_1_status w = ''in_progress'' \<or> step_2_status w = ''in_progress'' \<or> step_3_status w = ''in_progress'')"

definition newComplaintStatus :: "workflow \<Rightarrow> string \<Rightarrow> string option" where
  \<comment> \<open>\<open>None\<close> is the initial \<open>null\<close>: no write to the complaint row\<close>
  "newComplaintStatus updatedWorkflow actualStatus =
     (if allStagesCompleted updatedWorkflow then Some ''resolved''
      else if anyStageInProgress updatedWorkflow then Some ''in_progress''
      else if actualStatus = ''cancelled'' then Some ''cancelled''
      else None)"

definition set_complaint_status :: "string \<Rightarrow> string \<Rightarrow> db \<Rightarrow> db" where
  \<comment> \<open>\<open>from('complaints').update({status}).eq('id', complaintId)\<close>: no row, no change\<close>
  "set_complaint_status cid st d =
     (case complaints d cid of
        None \<Rightarrow> d
      | Some c \<Rightarrow> d\<lparr>complaints := (complaints d)(cid \<mapsto> c\<lparr>complaint_status := st\<rparr>)\<rparr>)"

definition update_stage :: "stage_request \<Rightarrow> db \<Rightarrow> db \<times> stage_response" where
  "update_stage rq d =
     (let complaintId = rq_complaintId rq;
          stageId = rq_stageId rq;
          actual = or_str (rq_status rq) (rq_stage_status rq)
      in if stageId \<notin> set [''1'', ''2'', ''3''] then
           (d, StageError 400 ''Invalid stage ID. Must be 1, 2, or 3'')
         else if \<not> truthy_str actual \<or> the actual \<notin> set valid_stage_statuses then
           (d, StageError 400 (''Invalid status: '' @ [CHR 0x22] @
                 (case actual of None \<Rightarrow> ''undefined'' | Some a \<Rightarrow> a) @ [CHR 0x22] @
                 ''. Must be pending, in_progress, completed, or cancelled''))
         else
           (case complaint_workflow d complaintId of
              None \<Rightarrow> (d, StageError 404 ''Complaint workflow not found'')
            | Some workflow \<Rightarrow>
                let actualStatus = the actual;
                    updatedWorkflow = stage_update_data stageId actualStatus rq workflow;
                    d1 = d\<lparr>complaint_workflow := (complaint_workflow d)(complaintId \<mapsto> updatedWorkflow)\<rparr>;
                    ncs = newComplaintStatus updatedWorkflow actualStatus;
                    d2 = (case ncs of None \<Rightarrow> d1 | Some st \<Rightarrow> set_complaint_status complaintId st d1);
                    entry = \<lparr>upd_complaint_id = complaintId, upd_updated_by_id = ''admin'',
                             upd_old_status = old_stage_status stageId workflow,
                             upd_new_status = actualStatus,
                             upd_notes = stage_name_of stageId @ '': '' @
                               (if truthy_str (rq_notes rq) then the (rq_notes rq) else ''Status updated'')\<rparr>;
                    d3 = d2\<lparr>complaint_updates := complaint_updates d2 @ [entry]\<rparr>
                in (d3, StageOk stageId (stage_name_of stageId) actualStatus
                          (case ncs of None \<Rightarrow> ''unchanged'' | Some st \<Rightarrow> st) updatedWorkflow)))"

text \<open>
  The derivation table of the specification (section 4.5), written from its words:
  all completed gives resolved; otherwise any in progress gives in progress;
  otherwise a cancelling update with no completed stage gives cancelled;
  otherwise pending.
\<close>

definition spec_derived_status :: "string \<Rightarrow> string \<Rightarrow> string \<Rightarrow> string \<Rightarrow> string" where
  "spec_derived_status s1 s2 s3 latest =
     (if s1 = ''completed'' \<and> s2 = ''completed'' \<and> s3 = ''completed'' then ''resolved''
      else if s1 = ''in_progress'' \<or> s2 = ''in_progress'' \<or> s3 = ''in_progress'' then ''in_progress''
      else if latest = ''cancelled'' \<and> s1 \<noteq> ''completed'' \<and> s2 \<noteq> ''completed'' \<and> s3 \<noteq> ''completed''
        then ''cancelled''
      else ''pending'')"

definition status_after_stage_update :: "stage_request \<Rightarrow> db \<Rightarrow> string option" where
  \<comment> \<open>the status column of the complaint row once the handler has run\<close>
  "status_after_stage_update rq d =
     map_option complaint_status (complaints (fst (update_stage rq d)) (rq_complaintId rq))"

section \<open>Vote ledger\<close>

text \<open>
  The authenticated toggle (POST /vote) writes vote rows only and then re-reads
  \<open>complaints.vote_count\<close>; routes/simplified-votes.js says of its own writes
  "This will trigger database to increment complaints.vote_count". Whatever the
  database does to \<open>vote_count\<close> when a vote row changes is not in the source
  tree, so it is a parameter of the model: a function of the row event and the
  stored count. \<open>no_trigger\<close> is a database that leaves the count alone.
\<close>

datatype vote_event =
  VoteInserted string
  | VoteDeleted string
  | VoteRetyped string string

type_synonym vote_trigger = "vote_event \<Rightarrow> int option \<Rightarrow> int option"

definition no_trigger :: vote_trigger where
  "no_trigger ev n = n"


definition or0 :: "int option \<Rightarrow> int" where
  \<comment> \<open>\<open>vote_count || 0\<close>: null and 0 both give 0\<close>
  "or0 n = (case n of None \<Rightarrow> 0 | Some k \<Rightarrow> k)"

definition single :: "'a list \<Rightarrow> 'a option" where
  \<comment> \<open>\<open>.single()\<close>: the row when exactly one row matches; otherwise data is null and the error
      has code PGRST116 (no rows, or more than one)\<close>
  "single rows = (case rows of [r] \<Rightarrow> Some r | _ \<Rightarrow> None)"

definition fire :: "vote_trigger \<Rightarrow> vote_event \<Rightarrow> string \<Rightarrow> db \<Rightarrow> db" where
  "fire trg ev cid d =
     (case complaints d cid of
        None \<Rightarrow> d
      | Some c \<Rightarrow> d\<lparr>complaints := (complaints d)(cid \<mapsto> c\<lparr>vote_count := trg ev (vote_count c)\<rparr>)\<rparr>)"

definition find_votes :: "string \<Rightarrow> string \<Rightarrow> db \<Rightarrow> vote list" where
  \<comment> \<open>\<open>.eq('complaint_id', complaintId).eq('user_id', userId)\<close>\<close>
  "find_votes cid uid d =
     filter (\<lambda>v. vote_complaint_id v = cid \<and> vote_user_id v = Some uid) (complaint_votes d)"

definition insert_vote :: "vote_trigger \<Rightarrow> string \<Rightarrow> string option \<Rightarrow> string \<Rightarrow> db \<Rightarrow> db" where
  "insert_vote trg cid uid t d =
     fire trg (VoteInserted t) cid
       (d\<lparr>complaint_votes := complaint_votes d @
             [\<lparr>vote_id = vote_seq d, vote_complaint_id = cid, vote_user_id = uid, vote_type = t\<rparr>],
          vote_seq := Suc (vote_seq d)\<rparr>)"


definition retype_votes :: "vote_trigger \<Rightarrow> (vote \<Rightarrow> bool) \<Rightarrow> string \<Rightarrow> db \<Rightarrow> db" where
  \<comment> \<open>\<open>update({vote_type}).eq(...)\<close> on the rows selected by \<open>sel\<close>\<close>
  "retype_votes trg sel t d =
     fold (\<lambda>v. fire trg (VoteRetyped (vote_type v) t) (vote_complaint_id v)) (filter sel (complaint_votes d))
       (d\<lparr>complaint_votes := map (\<lambda>v. if sel v then v\<lparr>vote_type := t\<rparr> else v) (complaint_votes d)\<rparr>)"

definition set_vote_count :: "string \<Rightarrow> int \<Rightarrow> db \<Rightarrow> db" where
  \<comment> \<open>\<open>from('complaints').update({vote_count}).eq('id', complaintId)\<close>\<close>
  "set_vote_count cid n d =
     (case complaints d cid of
        None \<Rightarrow> d
      | Some c \<Rightarrow> d\<lparr>complaints := (complaints d)(cid \<mapsto> c\<lparr>vote_count := Some n\<rparr>)\<rparr>)"

definition read_vote_count :: "string \<Rightarrow> db \<Rightarrow> int" where
  \<comment> \<open>\<open>countError ? 0 : (complaintData?.vote_count || 0)\<close>\<close>
  "read_vote_count cid d = (case complaints d cid of None \<Rightarrow> 0 | Some c \<Rightarrow> or0 (vote_count c))"

subsection \<open>POST /vote: the authenticated toggle\<close>





subsection \<open>Guest pseudo-voter id\<close>

text \<open>
  \<open>crypto.createHash('md5').update(s).digest('hex')\<close> is the platform's MD5; it is the
  parameter \<open>md5hex\<close>.
\<close>

definition substr :: "nat \<Rightarrow> nat \<Rightarrow> string \<Rightarrow> string" where
  \<comment> \<open>\<open>s.substr(i, n)\<close>: shorter, or empty, when the string ends first\<close>
  "substr i n s = take n (drop i s)"

definition hex_digits :: string where
  "hex_digits = ''0123456789abcdef''"

fun index_in :: "'a list \<Rightarrow> 'a \<Rightarrow> nat option" where
  "index_in [] x = None"
| "index_in (y # ys) x = (if x = y then Some 0 else map_option Suc (index_in ys x))"

definition parseInt16 :: "string \<Rightarrow> nat option" where
  \<comment> \<open>\<open>parseInt(c, 16)\<close> on at most one character; \<open>None\<close> is NaN\<close>
  "parseInt16 s =
     (case s of
        [c] \<Rightarrow> (case index_in hex_digits c of
                  Some n \<Rightarrow> Some n
                | None \<Rightarrow> map_option (\<lambda>n. n + 10) (index_in ''ABCDEF'' c))
      | _ \<Rightarrow> None)"

definition variant_digit :: "string \<Rightarrow> char" where
  \<comment> \<open>\<open>((parseInt(c, 16) & 0x3) | 0x8).toString(16)\<close>: the low two bits under the bits 10;
      NaN counts as 0 in the bitwise operation\<close>
  "variant_digit s = hex_digits ! (8 + (case parseInt16 s of None \<Rightarrow> 0 | Some n \<Rightarrow> n mod 4))"

definition format_uuid :: "string \<Rightarrow> string" where
  "format_uuid hash =
     substr 0 8 hash @ ''-'' @ substr 8 4 hash @ ''-'' @ (CHR ''4'' # substr 13 3 hash) @ ''-'' @
     (variant_digit (substr 16 1 hash) # substr 17 3 hash) @ ''-'' @ substr 20 12 hash"

definition generateGuestUUID :: "(string \<Rightarrow> string) \<Rightarrow> string \<Rightarrow> string" where
  "generateGuestUUID md5hex deviceId = format_uuid (md5hex (''guest_'' @ deviceId))"

definition digest_part_used :: "string \<Rightarrow> string \<times> string \<times> char \<times> string" where
  \<comment> \<open>what \<open>format_uuid\<close> reads of a 32-digit digest: every digit but digit 12, and of
      digit 16 the two low bits\<close>
  "digest_part_used h = (take 12 h, substr 13 3 h, variant_digit (substr 16 1 h), drop 17 h)"

subsection \<open>POST /api/guest-votes: two handlers registered on one route\<close>

record guest_request =
  gr_complaintId :: "string option"
  gr_deviceId :: "string option"

datatype guest_response =
  GuestError nat string
  | GuestOk (go_message: string) (go_complaint_id: string) (go_vote_type: string)
      (go_voteCount: int) (go_isGuestVote: bool)

definition guest_vote_first :: "vote_trigger \<Rightarrow> guest_request \<Rightarrow> db \<Rightarrow> db \<times> guest_response" where
  "guest_vote_first trg rq d =
     (if \<not> truthy_str (gr_complaintId rq) then
        (d, GuestError 400 ''Missing required parameter: complaintId'')
      else
        let complaintId = the (gr_complaintId rq) in
        (case complaints d complaintId of
           None \<Rightarrow> (d, GuestError 404 ''Complaint not found'')
         | Some complaint \<Rightarrow>
             let d1 = insert_vote trg complaintId None ''upvote'' d;
                 d2 = set_vote_count complaintId (or0 (vote_count complaint) + 1) d1;
                 finalVoteCount = read_vote_count complaintId d2
             in (d2, GuestOk ''Vote added successfully'' complaintId ''upvote'' finalVoteCount True)))"

text \<open>
  The second handler reads the clock and the random generator when no device id is
  sent: \<open>temp\<close> is the string \<open>temp_${Date.now()}_${Math.random()...}\<close> of that call.
\<close>

definition guest_vote_second ::
  "(string \<Rightarrow> string) \<Rightarrow> string \<Rightarrow> vote_trigger \<Rightarrow> guest_request \<Rightarrow> db \<Rightarrow> db \<times> guest_response" where
  "guest_vote_second md5hex temp trg rq d =
     (if \<not> truthy_str (gr_complaintId rq) then
        (d, GuestError 400 ''Missing required parameter: complaintId'')
      else
        let complaintId = the (gr_complaintId rq) in
        (case complaints d complaintId of
           None \<Rightarrow> (d, GuestError 404 ''Complaint not found'')
         | Some complaint \<Rightarrow>
             let existingVote =
                   (if truthy_str (gr_deviceId rq)
                    then single (find_votes complaintId (generateGuestUUID md5hex (the (gr_deviceId rq))) d)
                    else None)
             in (case existingVote of
                   None \<Rightarrow>
                     let guestUserId =
                           (if truthy_str (gr_deviceId rq)
                            then generateGuestUUID md5hex (the (gr_deviceId rq))
                            else generateGuestUUID md5hex temp);
                         d1 = insert_vote trg complaintId (Some guestUserId) ''upvote'' d;
                         d2 = set_vote_count complaintId (or0 (vote_count complaint) + 1) d1
                     in (d2, GuestOk ''Vote added successfully'' complaintId ''upvote''
                               (or0 (vote_count complaint) + 1) True)
                 | Some ev \<Rightarrow>
                     let newVoteType = (if vote_type ev = ''upvote'' then ''downvote'' else ''upvote'');
                         voteCountChange = (if newVoteType = ''upvote'' then 1 else - 1);
                         d1 = retype_votes trg (\<lambda>v. vote_id v = vote_id ev) newVoteType d;
                         d2 = set_vote_count complaintId
                                (max 0 (or0 (vote_count complaint) + voteCountChange)) d1
                     in (d2, GuestOk (if newVoteType = ''upvote'' then ''Vote added successfully''
                                      else ''Vote removed successfully'')
                               complaintId newVoteType
                               (or0 (vote_count complaint) + voteCountChange) True))))"

text \<open>
  Express keeps the handlers of a router in registration order and runs the first
  one whose method and path match; a later one runs only if the earlier one calls
  \<open>next()\<close>. A handler is modelled as a function that either answers
  (\<open>Some\<close>) or passes the request on (\<open>None\<close>). Both guest handlers have the
  signature \<open>(req, res)\<close>: they cannot call \<open>next\<close> and answer on every path.
\<close>

type_synonym ('q, 's, 'r) handler = "'q \<Rightarrow> 's \<Rightarrow> ('s \<times> 'r) option"

fun dispatch :: "('q, 's, 'r) handler list \<Rightarrow> ('q, 's, 'r) handler" where
  "dispatch [] rq d = None"
| "dispatch (h # hs) rq d = (case h rq d of Some r \<Rightarrow> Some r | None \<Rightarrow> dispatch hs rq d)"

definition answering :: "('q \<Rightarrow> 's \<Rightarrow> 's \<times> 'r) \<Rightarrow> ('q, 's, 'r) handler" where
  "answering h rq d = Some (h rq d)"

definition guest_votes_post ::
  "(string \<Rightarrow> string) \<Rightarrow> string \<Rightarrow> vote_trigger \<Rightarrow> (guest_request, db, guest_response) handler" where
  "guest_votes_post md5hex temp trg =
     dispatch [answering (guest_vote_first trg), answering (guest_vote_second md5hex temp trg)]"

section \<open>Numbers and their decimal rendering\<close>

definition truthy_num :: "rat option \<Rightarrow> bool" where
  \<comment> \<open>truthiness of a number-valued property: undefined, null and 0 are falsy\<close>
  "truthy_num v = (case v of None \<Rightarrow> False | Some x \<Rightarrow> x \<noteq> 0)"

definition num_or0 :: "rat option \<Rightarrow> rat" where
  \<comment> \<open>\<open>v || 0\<close>\<close>
  "num_or0 v = (case v of None \<Rightarrow> 0 | Some x \<Rightarrow> x)"

definition toFixed_units :: "nat \<Rightarrow> rat \<Rightarrow> int" where
  \<comment> \<open>Number.prototype.toFixed on the magnitude: the integer \<open>n\<close> with \<open>n / 10^f\<close> nearest
      to it, the larger one on a tie\<close>
  "toFixed_units f x = \<lfloor>\<bar>x\<bar> * 10 ^ f + 1 / 2\<rfloor>"

definition toFixed_num :: "nat \<Rightarrow> rat \<Rightarrow> rat" where
  \<comment> \<open>\<open>parseFloat(x.toFixed(f))\<close>; from \<open>10^21\<close> on, toFixed prints the number itself\<close>
  "toFixed_num f x =
     (if \<bar>x\<bar> \<ge> 10 ^ 21 then x
      else (if x < 0 then - 1 else 1) * of_int (toFixed_units f x) / 10 ^ f)"

function show_nat :: "nat \<Rightarrow> string" where
  "show_nat n = (if n < 10 then [hex_digits ! n] else show_nat (n div 10) @ [hex_digits ! (n mod 10)])"
  by pat_completeness auto
termination
  by (relation "measure id") auto

declare show_nat.simps [simp del]

definition pad_zeros :: "nat \<Rightarrow> string \<Rightarrow> string" where
  "pad_zeros w s = replicate (w - length s) (CHR ''0'') @ s"

definition toFixed_str :: "nat \<Rightarrow> rat \<Rightarrow> string" where
  \<comment> \<open>\<open>x.toFixed(f)\<close> as text, for magnitudes below \<open>10^21\<close> (beyond, the source prints
      exponent notation, which is not modelled)\<close>
  "toFixed_str f x =
     (let n = nat (toFixed_units f x)
      in (if x < 0 then ''-'' else []) @ show_nat (n div 10 ^ f) @
         (if f = 0 then [] else ''.'' @ pad_zeros f (show_nat (n mod 10 ^ f))))"

section \<open>Priority fusion engine\<close>

text \<open>
  \<open>LocationPriorityService\<close> is required from \<open>../services\<close> and is not in the
  source tree: its two methods are parameters. Each is called at most once per request, with
  the request's coordinates and category; it returns a result or raises (\<open>Inl\<close>). A result
  whose shape makes the caller's property access raise counts as raising. The
  \<open>processingTime\<close> and \<open>breakdown\<close> properties of the analysis are not modelled.
\<close>

datatype exn = Exn string

record image_validation =
  iv_confidence :: "rat option"
  iv_modelConfidence :: "rat option"
  iv_allowUpload :: bool
  iv_data_priorityScore :: "rat option"

record location_data =
  ld_latitude :: "rat option"
  ld_longitude :: "rat option"
  ld_address :: "string option"

record comprehensive_result =
  cr_priorityScore :: rat
  cr_priorityLevel :: string
  cr_infrastructureScore :: rat
  cr_imageValidationScore :: rat
  cr_reasoning :: string
  cr_totalFacilities :: "nat option"

record location_priority =
  lp_priorityScore :: "rat option"
  lp_reasoning :: "string option"
  lp_totalFacilities :: "nat option"

record location_service =
  svc_comprehensive :: "rat \<Rightarrow> rat \<Rightarrow> image_validation option \<Rightarrow> string \<Rightarrow> exn + comprehensive_result"
  svc_location :: "rat option \<Rightarrow> rat option \<Rightarrow> string \<Rightarrow> exn + location_priority"

record priority_analysis =
  pa_totalScore :: rat
  pa_priorityLevel :: string
  pa_locationScore :: rat
  pa_imageScore :: rat
  pa_reasoning :: string
  pa_facilitiesCount :: nat

definition categoryPriorities :: "(string \<times> rat) list" where
  "categoryPriorities =
     [(''road_damage'', 7 / 10), (''pothole'', 65 / 100), (''water_issue'', 8 / 10),
      (''sewage_overflow'', 85 / 100), (''garbage'', 6 / 10), (''streetlight'', 55 / 100),
      (''broken_streetlight'', 6 / 10), (''electricity'', 75 / 100),
      (''public_property_damage'', 65 / 100), (''tree_issue'', 5 / 10), (''flooding'', 9 / 10),
      (''traffic_signal'', 8 / 10), (''stray_animals'', 4 / 10), (''noise_pollution'', 4 / 10),
      (''air_pollution'', 7 / 10), (''other'', 5 / 10)]"

definition getFallbackPriority :: "string \<Rightarrow> rat" where
  \<comment> \<open>\<open>categoryPriorities[category] || 0.5\<close>, on the literal's own keys (a name inherited from
      Object.prototype, such as \<open>constructor\<close>, is not a category and is outside the model)\<close>
  "getFallbackPriority category =
     (case map_of categoryPriorities category of None \<Rightarrow> 1 / 2 | Some p \<Rightarrow> if p = 0 then 1 / 2 else p)"

definition categoryImportance :: "(string \<times> string) list" where
  "categoryImportance =
     [(''road_damage'', ''high-priority''), (''pothole'', ''high-priority''),
      (''water_issue'', ''critical''), (''sewage_overflow'', ''critical''),
      (''garbage'', ''medium-priority''), (''streetlight'', ''medium-priority''),
      (''broken_streetlight'', ''medium-priority''), (''electricity'', ''high-priority''),
      (''public_property_damage'', ''high-priority''), (''tree_issue'', ''medium-priority''),
      (''flooding'', ''critical''), (''traffic_signal'', ''high-priority''),
      (''stray_animals'', ''standard''), (''noise_pollution'', ''standard''),
      (''air_pollution'', ''high-priority''), (''other'', ''standard'')]"

definition getCategoryImportance :: "string \<Rightarrow> string" where
  "getCategoryImportance category =
     (case map_of categoryImportance category of None \<Rightarrow> ''standard'' | Some i \<Rightarrow> i)"

definition priority_level_of :: "rat \<Rightarrow> string" where
  \<comment> \<open>step 4 of the two-factor calculation\<close>
  "priority_level_of totalScore =
     (if totalScore \<ge> 8 / 10 then ''CRITICAL''
      else if totalScore \<ge> 6 / 10 then ''HIGH''
      else if totalScore \<ge> 4 / 10 then ''MEDIUM''
      else ''LOW'')"

definition image_priority_score :: "image_validation option \<Rightarrow> rat" where
  \<comment> \<open>\<open>imageValidation?.data?.priorityScore || 0\<close>\<close>
  "image_priority_score iv = (case iv of None \<Rightarrow> 0 | Some v \<Rightarrow> num_or0 (iv_data_priorityScore v))"

definition generatePriorityReasoning ::
  "rat \<Rightarrow> rat \<Rightarrow> string \<Rightarrow> string \<Rightarrow> location_priority option \<Rightarrow> image_validation option \<Rightarrow> string" where
  "generatePriorityReasoning locationScore imageScore priorityLevel category locationPriority imageValidation =
     priorityLevel @ '' priority assigned. '' @
     (if locationScore > 0 then
        ''Location analysis: '' @ toFixed_str 1 (locationScore * 100) @ ''% '' @
        (case locationPriority of
           None \<Rightarrow> []
         | Some lp \<Rightarrow> (if truthy_str (lp_reasoning lp)
                       then ''('' @ take 100 (the (lp_reasoning lp)) @ ''...) '' else []))
      else []) @
     (if imageScore > 0 then
        ''Image validation: '' @ toFixed_str 1 (imageScore * 100) @ ''% '' @
        (case imageValidation of
           None \<Rightarrow> []
         | Some v \<Rightarrow> (if iv_allowUpload v then ''(Valid civic issue detected) '' else []))
      else []) @
     ''Category '' @ [CHR 0x27] @ category @ [CHR 0x27] @ '' is considered '' @
     getCategoryImportance category @ ''. ''"

definition comprehensive_attempt ::
  "location_service \<Rightarrow> image_validation option \<Rightarrow> location_data option \<Rightarrow> string \<Rightarrow> priority_analysis option" where
  \<comment> \<open>the inner try: taken only when both coordinates are truthy; its catch falls through\<close>
  "comprehensive_attempt svc imageValidation locationData category =
     (case locationData of
        None \<Rightarrow> None
      | Some ld \<Rightarrow>
          if truthy_num (ld_latitude ld) \<and> truthy_num (ld_longitude ld) then
            (case svc_comprehensive svc (the (ld_latitude ld)) (the (ld_longitude ld)) imageValidation category of
               Inl e \<Rightarrow> None
             | Inr r \<Rightarrow>
                 Some \<lparr>pa_totalScore = cr_priorityScore r, pa_priorityLevel = cr_priorityLevel r,
                       pa_locationScore = cr_infrastructureScore r,
                       pa_imageScore = cr_imageValidationScore r, pa_reasoning = cr_reasoning r,
                       pa_facilitiesCount = (case cr_totalFacilities r of None \<Rightarrow> 0 | Some n \<Rightarrow> n)\<rparr>)
          else None)"

definition two_factor ::
  "location_service \<Rightarrow> image_validation option \<Rightarrow> location_data option \<Rightarrow> string \<Rightarrow> exn + priority_analysis" where
  \<comment> \<open>"Fallback to original calculation": steps 1 to 5; the location call may raise\<close>
  "two_factor svc imageValidation locationData category =
     (case (case locationData of
              None \<Rightarrow> Inr None
            | Some ld \<Rightarrow> map_sum id Some (svc_location svc (ld_latitude ld) (ld_longitude ld) category)) of
        Inl e \<Rightarrow> Inl e
      | Inr locationPriority \<Rightarrow>
          let locationScore = (case locationPriority of None \<Rightarrow> 0 | Some lp \<Rightarrow> num_or0 (lp_priorityScore lp));
              imageScore = image_priority_score imageValidation;
              totalScore = locationScore * (6 / 10) + imageScore * (4 / 10);
              priorityLevel = priority_level_of totalScore
          in Inr \<lparr>pa_totalScore = totalScore, pa_priorityLevel = priorityLevel,
                  pa_locationScore = locationScore, pa_imageScore = imageScore,
                  pa_reasoning = generatePriorityReasoning locationScore imageScore priorityLevel
                                   category locationPriority imageValidation,
                  pa_facilitiesCount =
                    (case locationPriority of
                       None \<Rightarrow> 0
                     | Some lp \<Rightarrow> (case lp_totalFacilities lp of None \<Rightarrow> 0 | Some n \<Rightarrow> n))\<rparr>)"

definition category_fallback :: "image_validation option \<Rightarrow> string \<Rightarrow> priority_analysis" where
  \<comment> \<open>the outer catch\<close>
  "category_fallback imageValidation category =
     (let fallbackScore = getFallbackPriority category
      in \<lparr>pa_totalScore = min fallbackScore (999 / 1000),
          pa_priorityLevel = (if fallbackScore \<ge> 6 / 10 then ''HIGH'' else ''MEDIUM''),
          pa_locationScore = 0,
          pa_imageScore = image_priority_score imageValidation,
          pa_reasoning = ''Priority assigned based on complaint type ('' @ category @
                         ''). Location analysis unavailable.'',
          pa_facilitiesCount = 0\<rparr>)"

definition calculateComprehensivePriority ::
  "location_service \<Rightarrow> image_validation option \<Rightarrow> location_data option \<Rightarrow> string \<Rightarrow> exn + priority_analysis" where
  \<comment> \<open>\<open>Inl\<close> would be an exception leaving the function\<close>
  "calculateComprehensivePriority svc imageValidation locationData category =
     (case comprehensive_attempt svc imageValidation locationData category of
        Some pa \<Rightarrow> Inr pa
      | None \<Rightarrow>
          (case two_factor svc imageValidation locationData category of
             Inr pa \<Rightarrow> Inr pa
           | Inl error \<Rightarrow> Inr (category_fallback imageValidation category)))"

section \<open>Complaint submission: the score columns\<close>

datatype jsval = JNum rat | JStr string | JNull | JList "jsval list"




definition clamp_score :: "jsval \<Rightarrow> jsval" where
  \<comment> \<open>the body of \<open>numericFields.forEach\<close> for a present field\<close>
  "clamp_score v =
     (case v of
        JNum x \<Rightarrow> (if x \<ge> 10 then JNum (999 / 100)
                    else if x < 0 then JNum 0
                    else JNum (toFixed_num 2 x))
      | _ \<Rightarrow> v)"










section \<open>Emotion and urgency analyzer\<close>

text \<open>
  The analysed text is a JavaScript string: a list of UTF-16 code units. The
  keyword lists of the source are mostly Devanagari and Tamil; they are carried as
  the parameter \<open>lx\<close> (a \<open>lexicon\<close>), so every statement below holds for the lists
  of the source in particular. \<open>toLowerCase\<close> is modelled on the ASCII letters
  (Devanagari and Tamil have no case). The sentiment classifier is an external
  HTTP service: \<open>ai url\<close> is its answer for the analysed text at one model URL.
  The route hands the analyzer a string, on which nothing in \<open>analyzeEmotion\<close>
  raises outside the inner try, so its outer catch (score 0.5, method
  emergency-fallback) is not a branch of the model.
\<close>

type_synonym jstring = "nat list"


definition lower_unit :: "nat \<Rightarrow> nat" where
  "lower_unit c = (if 65 \<le> c \<and> c \<le> 90 then c + 32 else c)"

definition toLowerCase :: "jstring \<Rightarrow> jstring" where
  "toLowerCase s = map lower_unit s"


fun js_includes :: "'a list \<Rightarrow> 'a list \<Rightarrow> bool" where
  "js_includes [] w = (w = [])"
| "js_includes (c # cs) w = (take (length w) (c # cs) = w \<or> js_includes cs w)"

record emotions =
  em_anger :: rat
  em_urgency :: rat
  em_frustration :: rat
  em_concern :: rat




definition count_matches :: "jstring \<Rightarrow> jstring list \<Rightarrow> nat" where
  \<comment> \<open>how many entries of a list occur in the lower-cased text, each entry lower-cased\<close>
  "count_matches textLower ws = length (filter (\<lambda>w. js_includes textLower (toLowerCase w)) ws)"

definition calculateTextScore :: "jstring \<Rightarrow> jstring list \<Rightarrow> rat \<Rightarrow> rat" where
  "calculateTextScore text indicators baseScore =
     min (of_nat (count_matches (toLowerCase text) indicators) * baseScore) 1"















definition emotion_weights :: "(string \<times> rat) list" where
  "emotion_weights = [(''urgency'', 4 / 10), (''anger'', 3 / 10), (''concern'', 2 / 10), (''frustration'', 1 / 10)]"

definition emotion_entries :: "emotions \<Rightarrow> (string \<times> rat) list" where
  \<comment> \<open>the object's keys in creation order\<close>
  "emotion_entries e =
     [(''anger'', em_anger e), (''urgency'', em_urgency e), (''frustration'', em_frustration e),
      (''concern'', em_concern e)]"

definition calculateEmotionScore :: "emotions \<Rightarrow> rat" where
  "calculateEmotionScore e =
     (let baseScore =
            foldl (\<lambda>score (emotion, v).
                     score + v * (case map_of emotion_weights emotion of None \<Rightarrow> 0 | Some w \<Rightarrow> w))
              0 (emotion_entries e)
      in if em_concern e > 3 / 10 then min (baseScore * (12 / 10)) 1 else baseScore)"












section \<open>Predicates used in the statements\<close>



text \<open>
  The image score as the specification words it (section 4.3, step 2): the
  image-validation confidence if present, else 0.
\<close>

definition spec_image_score :: "image_validation option \<Rightarrow> rat" where
  "spec_image_score iv = (case iv of None \<Rightarrow> 0 | Some v \<Rightarrow> num_or0 (iv_confidence v))"

section \<open>Workflow stage reconciler: the derived complaint status\<close>

text \<open>
  C1 (as the code has it). After an accepted stage update on a complaint that has a
  workflow row and a complaint row, the complaint's status is: resolved when all three
  stages of the updated workflow are completed; otherwise in_progress when any stage is
  in progress; otherwise cancelled when the update itself set a stage to cancelled
  (whether or not another stage is completed); otherwise the status the complaint had
  before, which the handler does not write.
\<close>

theorem stage_update_status:
  assumes sid: "rq_stageId rq \<in> set [''1'', ''2'', ''3'']"
    and act: "or_str (rq_status rq) (rq_stage_status rq) = Some s"
    and val: "s \<in> set valid_stage_statuses"
    and wf: "complaint_workflow d (rq_complaintId rq) = Some w"
    and co: "complaints d (rq_complaintId rq) = Some c"
  shows "status_after_stage_update rq d =
     Some (let w' = stage_update_data (rq_stageId rq) s rq w in
           if step_1_status w' = ''completed'' \<and> step_2_status w' = ''completed''
              \<and> step_3_status w' = ''completed''
             then ''resolved''
           else if step_1_status w' = ''in_progress'' \<or> step_2_status w' = ''in_progress''
              \<or> step_3_status w' = ''in_progress''
             then ''in_progress''
           else if s = ''cancelled'' then ''cancelled''
           else complaint_status c)"
proof -
  have ne: "s \<noteq> []" using val by (auto simp: valid_stage_statuses_def)
  have tr: "truthy_str (Some s)" using ne by (simp add: truthy_str_def)
  show ?thesis
    using sid val wf co tr
    unfolding status_after_stage_update_def update_stage_def act Let_def
    by (auto simp: newComplaintStatus_def set_complaint_status_def allStagesCompleted_def
          anyStageInProgress_def split: option.splits)
qed

text \<open>
  C1, witness: stage 3 of a complaint whose first two stages are completed is set to
  completed; the complaint becomes resolved.
\<close>

theorem stage_update_status_witness:
  "status_after_stage_update
       \<lparr>rq_complaintId = ''c1'', rq_stageId = ''3'', rq_status = None,
        rq_stage_status = Some ''completed'', rq_notes = Some ''done'', rq_estimated_cost = None\<rparr>
       \<lparr>complaints = [''c1'' \<mapsto> \<lparr>complaint_status = ''in_progress'', vote_count = Some 0\<rparr>],
        complaint_workflow = [''c1'' \<mapsto>
          \<lparr>step_1_status = ''completed'', step_1_notes = None, step_1_officer_id = None,
           step_2_status = ''completed'', step_2_notes = None, step_2_officer_id = None,
           step_2_estimated_cost = None,
           step_3_status = ''in_progress'', step_3_notes = None, step_3_contractor_id = None\<rparr>],
        complaint_votes = [], vote_seq = 0, complaint_updates = []\<rparr>
     = Some ''resolved''"
  using stage_update_status
    [of "\<lparr>rq_complaintId = ''c1'', rq_stageId = ''3'', rq_status = None,
          rq_stage_status = Some ''completed'', rq_notes = Some ''done'', rq_estimated_cost = None\<rparr>"
        "''completed''"
        "\<lparr>complaints = [''c1'' \<mapsto> \<lparr>complaint_status = ''in_progress'', vote_count = Some 0\<rparr>],
          complaint_workflow = [''c1'' \<mapsto>
            \<lparr>step_1_status = ''completed'', step_1_notes = None, step_1_officer_id = None,
             step_2_status = ''completed'', step_2_notes = None, step_2_officer_id = None,
             step_2_estimated_cost = None,
             step_3_status = ''in_progress'', step_3_notes = None, step_3_contractor_id = None\<rparr>],
          complaint_votes = [], vote_seq = 0, complaint_updates = []\<rparr>"]
  by (simp add: or_str_def truthy_str_def valid_stage_statuses_def stage_update_data_def)

text \<open>
  C1, counterexample to the table of the specification. First input: stage 1 is
  completed and stage 2 is cancelled by the update; no stage is in progress. The table
  gives pending (a stage is completed, so the cancelled row does not apply); the handler
  writes cancelled. Second input: a complaint in progress whose only active stage is
  set back to pending. The table gives pending; the handler leaves in_progress.
\<close>

theorem stage_update_table_counterexample:
  "status_after_stage_update
       \<lparr>rq_complaintId = ''c1'', rq_stageId = ''2'', rq_status = Some ''cancelled'',
        rq_stage_status = None, rq_notes = None, rq_estimated_cost = None\<rparr>
       \<lparr>complaints = [''c1'' \<mapsto> \<lparr>complaint_status = ''in_progress'', vote_count = Some 0\<rparr>],
        complaint_workflow = [''c1'' \<mapsto>
          \<lparr>step_1_status = ''completed'', step_1_notes = None, step_1_officer_id = None,
           step_2_status = ''in_progress'', step_2_notes = None, step_2_officer_id = None,
           step_2_estimated_cost = None,
           step_3_status = ''pending'', step_3_notes = None, step_3_contractor_id = None\<rparr>],
        complaint_votes = [], vote_seq = 0, complaint_updates = []\<rparr> = Some ''cancelled''
   \<and> spec_derived_status ''completed'' ''cancelled'' ''pending'' ''cancelled'' = ''pending''
   \<and> status_after_stage_update
       \<lparr>rq_complaintId = ''c1'', rq_stageId = ''1'', rq_status = Some ''pending'',
        rq_stage_status = None, rq_notes = None, rq_estimated_cost = None\<rparr>
       \<lparr>complaints = [''c1'' \<mapsto> \<lparr>complaint_status = ''in_progress'', vote_count = Some 0\<rparr>],
        complaint_workflow = [''c1'' \<mapsto>
          \<lparr>step_1_status = ''in_progress'', step_1_notes = None, step_1_officer_id = None,
           step_2_status = ''pending'', step_2_notes = None, step_2_officer_id = None,
           step_2_estimated_cost = None,
           step_3_status = ''pending'', step_3_notes = None, step_3_contractor_id = None\<rparr>],
        complaint_votes = [], vote_seq = 0, complaint_updates = []\<rparr> = Some ''in_progress''
   \<and> spec_derived_status ''pending'' ''pending'' ''pending'' ''pending'' = ''pending''"
  by (simp add: status_after_stage_update_def update_stage_def or_str_def truthy_str_def
        valid_stage_statuses_def stage_update_data_def newComplaintStatus_def
        allStagesCompleted_def anyStageInProgress_def set_complaint_status_def
        spec_derived_status_def Let_def)

section \<open>Vote ledger: the authenticated toggle\<close>


lemma fire_votes [simp]: "complaint_votes (fire trg ev cid d) = complaint_votes d"
  by (simp add: fire_def split: option.splits)

lemma fire_seq [simp]: "vote_seq (fire trg ev cid d) = vote_seq d"
  by (simp add: fire_def split: option.splits)

lemma fold_fire_votes [simp]:
  "complaint_votes (fold (\<lambda>v. fire trg (f v) cid) vs d) = complaint_votes d"
  by (induction vs arbitrary: d) simp_all



section \<open>Guest pseudo-voter id\<close>

lemma take12_split: "take 12 h = take 8 h @ take 4 (drop 8 h)"
  using take_add [of 8 4 h] by simp

lemma drop17_split: "length h = 32 \<Longrightarrow> drop 17 h = take 3 (drop 17 h) @ take 12 (drop 20 h)"
proof -
  assume l: "length h = 32"
  have "take 12 (drop 20 h) = drop 20 h" using l by simp
  then show ?thesis using append_take_drop_id [of 3 "drop 17 h"] by simp
qed

lemma format_uuid_eq_iff:
  assumes l1: "length h1 = 32" and l2: "length h2 = 32"
  shows "format_uuid h1 = format_uuid h2 \<longleftrightarrow> digest_part_used h1 = digest_part_used h2"
proof
  assume eq: "format_uuid h1 = format_uuid h2"
  have parts: "take 8 h1 = take 8 h2 \<and> take 4 (drop 8 h1) = take 4 (drop 8 h2)
      \<and> take 3 (drop 13 h1) = take 3 (drop 13 h2)
      \<and> variant_digit (take 1 (drop 16 h1)) = variant_digit (take 1 (drop 16 h2))
      \<and> take 3 (drop 17 h1) = take 3 (drop 17 h2)
      \<and> take 12 (drop 20 h1) = take 12 (drop 20 h2)"
    using eq l1 l2 by (simp add: format_uuid_def substr_def)
  show "digest_part_used h1 = digest_part_used h2"
    using parts drop17_split [OF l1] drop17_split [OF l2]
    by (simp add: digest_part_used_def substr_def take12_split)
next
  assume eq: "digest_part_used h1 = digest_part_used h2"
  then have a: "take 12 h1 = take 12 h2" and b: "take 3 (drop 13 h1) = take 3 (drop 13 h2)"
    and c: "variant_digit (take 1 (drop 16 h1)) = variant_digit (take 1 (drop 16 h2))"
    and d: "drop 17 h1 = drop 17 h2"
    by (simp_all add: digest_part_used_def substr_def)
  have a1: "take 8 h1 = take 8 h2"
    using arg_cong [OF a, of "take 8"] by simp
  have a2: "take 4 (drop 8 h1) = take 4 (drop 8 h2)"
    using arg_cong [OF a, of "drop 8"] by (simp add: drop_take)
  have d1: "take 3 (drop 17 h1) = take 3 (drop 17 h2)" using d by simp
  have d2: "take 12 (drop 20 h1) = take 12 (drop 20 h2)"
    using arg_cong [OF d, of "drop 3"] by simp
  show "format_uuid h1 = format_uuid h2"
    using a1 a2 b c d1 d2 by (simp add: format_uuid_def substr_def)
qed

text \<open>
  C9. The derived id is a function of the device identifier alone, through the MD5
  digest of \<open>'guest_' + deviceId\<close>: equal identifiers give equal ids. For 32-digit
  digests, two identifiers get the same id exactly when their digests agree on all that
  the formatting reads (30 hexadecimal digits and two bits of a 31st), so distinct
  identifiers share an id only when MD5 collides on those 122 bits.
\<close>

theorem guest_uuid_deterministic:
  assumes l1: "length (md5hex (''guest_'' @ d1)) = 32"
    and l2: "length (md5hex (''guest_'' @ d2)) = 32"
  shows "(d1 = d2 \<longrightarrow> generateGuestUUID md5hex d1 = generateGuestUUID md5hex d2)
       \<and> (generateGuestUUID md5hex d1 = generateGuestUUID md5hex d2
            \<longleftrightarrow> digest_part_used (md5hex (''guest_'' @ d1)) = digest_part_used (md5hex (''guest_'' @ d2)))"
  using format_uuid_eq_iff [OF l1 l2] by (auto simp: generateGuestUUID_def)

text \<open>
  C9, witness: the MD5 digests of guest_phone-1 and guest_phone-2 and the ids derived
  from them.
\<close>

theorem guest_uuid_deterministic_witness:
  "(let md5hex = (\<lambda>s. if s = ''guest_phone-1'' then ''1f32bd35ae4cd1e79903f871676f9a7b''
                       else ''67eba76e9b90e1984b3e8e6937fcbd33'')
    in generateGuestUUID md5hex ''phone-1'' = ''1f32bd35-ae4c-41e7-9903-f871676f9a7b''
     \<and> generateGuestUUID md5hex ''phone-2'' = ''67eba76e-9b90-4198-8b3e-8e6937fcbd33''
     \<and> digest_part_used (md5hex ''guest_phone-1'') \<noteq> digest_part_used (md5hex ''guest_phone-2''))"
  using guest_uuid_deterministic
    [of "\<lambda>s. if s = ''guest_phone-1'' then ''1f32bd35ae4cd1e79903f871676f9a7b''
              else ''67eba76e9b90e1984b3e8e6937fcbd33''" "''phone-1''" "''phone-2''"]
  by (simp add: generateGuestUUID_def format_uuid_def substr_def variant_digit_def parseInt16_def
        hex_digits_def)

section \<open>Guest votes: which handler serves the route\<close>

lemma insert_vote_votes:
  "complaint_votes (insert_vote trg cid uid t d) =
     complaint_votes d @ [\<lparr>vote_id = vote_seq d, vote_complaint_id = cid, vote_user_id = uid, vote_type = t\<rparr>]"
  by (simp add: insert_vote_def)

lemma insert_vote_seq: "vote_seq (insert_vote trg cid uid t d) = Suc (vote_seq d)"
  by (simp add: insert_vote_def)

lemma set_vote_count_votes [simp]: "complaint_votes (set_vote_count cid n d) = complaint_votes d"
  by (simp add: set_vote_count_def split: option.splits)

lemma set_vote_count_seq [simp]: "vote_seq (set_vote_count cid n d) = vote_seq d"
  by (simp add: set_vote_count_def split: option.splits)

lemma insert_vote_complaint:
  "complaints d cid = Some c \<Longrightarrow>
   \<exists>c'. complaints (insert_vote trg cid uid t d) cid = Some c' \<and> complaint_status c' = complaint_status c"
  by (simp add: insert_vote_def fire_def)

lemma guest_vote_first_effect:
  assumes cid: "gr_complaintId rq = Some cid" and ne: "cid \<noteq> []"
    and ex: "complaints d cid = Some c"
  shows "\<exists>d'. guest_vote_first trg rq d =
            (d', GuestOk ''Vote added successfully'' cid ''upvote'' (or0 (vote_count c) + 1) True)
       \<and> complaint_votes d' = complaint_votes d @
            [\<lparr>vote_id = vote_seq d, vote_complaint_id = cid, vote_user_id = None, vote_type = ''upvote''\<rparr>]
       \<and> vote_seq d' = Suc (vote_seq d)
       \<and> (\<exists>c'. complaints d' cid = Some c' \<and> vote_count c' = Some (or0 (vote_count c) + 1))"
proof -
  have tr: "truthy_str (Some cid)" using ne by (simp add: truthy_str_def)
  obtain c' where c': "complaints (insert_vote trg cid None ''upvote'' d) cid = Some c'"
    using insert_vote_complaint [OF ex] by blast
  show ?thesis
    using cid tr ex c'
    by (simp add: guest_vote_first_def Let_def insert_vote_votes insert_vote_seq
          set_vote_count_def read_vote_count_def or0_def)
qed

text \<open>
  C10. A POST to the guest-votes route that names an existing complaint is answered by
  the handler registered first: one row with a null user id and type upvote is appended
  and the complaint's vote_count becomes its old value plus one, whatever device id the
  request carries and whatever rows exist already. The answer does not depend on the
  handler registered second (\<open>h2\<close> is arbitrary), which never runs. The same request
  sent again adds a second row and a second increment: nothing is deduplicated or
  toggled.
\<close>

theorem guest_votes_served_by_first_handler:
  assumes cid: "gr_complaintId rq = Some cid" and ne: "cid \<noteq> []"
    and ex: "complaints d cid = Some c"
  shows "\<exists>d1 d2.
       guest_votes_post md5hex temp trg rq d =
         Some (d1, GuestOk ''Vote added successfully'' cid ''upvote'' (or0 (vote_count c) + 1) True)
     \<and> dispatch [answering (guest_vote_first trg), h2] rq d = guest_votes_post md5hex temp trg rq d
     \<and> complaint_votes d1 = complaint_votes d @
          [\<lparr>vote_id = vote_seq d, vote_complaint_id = cid, vote_user_id = None, vote_type = ''upvote''\<rparr>]
     \<and> map_option vote_count (complaints d1 cid) = Some (Some (or0 (vote_count c) + 1))
     \<and> guest_votes_post md5hex temp trg rq d1 =
         Some (d2, GuestOk ''Vote added successfully'' cid ''upvote'' (or0 (vote_count c) + 2) True)
     \<and> complaint_votes d2 = complaint_votes d @
          [\<lparr>vote_id = vote_seq d, vote_complaint_id = cid, vote_user_id = None, vote_type = ''upvote''\<rparr>,
           \<lparr>vote_id = Suc (vote_seq d), vote_complaint_id = cid, vote_user_id = None, vote_type = ''upvote''\<rparr>]
     \<and> map_option vote_count (complaints d2 cid) = Some (Some (or0 (vote_count c) + 2))"
proof -
  obtain d1 c1 where f1: "guest_vote_first trg rq d =
            (d1, GuestOk ''Vote added successfully'' cid ''upvote'' (or0 (vote_count c) + 1) True)"
    and v1: "complaint_votes d1 = complaint_votes d @
            [\<lparr>vote_id = vote_seq d, vote_complaint_id = cid, vote_user_id = None, vote_type = ''upvote''\<rparr>]"
    and s1: "vote_seq d1 = Suc (vote_seq d)"
    and c1: "complaints d1 cid = Some c1" and n1: "vote_count c1 = Some (or0 (vote_count c) + 1)"
    using guest_vote_first_effect [OF cid ne ex, of trg] by blast
  obtain d2 c2 where f2: "guest_vote_first trg rq d1 =
            (d2, GuestOk ''Vote added successfully'' cid ''upvote'' (or0 (vote_count c1) + 1) True)"
    and v2: "complaint_votes d2 = complaint_votes d1 @
            [\<lparr>vote_id = vote_seq d1, vote_complaint_id = cid, vote_user_id = None, vote_type = ''upvote''\<rparr>]"
    and c2: "complaints d2 cid = Some c2" and n2: "vote_count c2 = Some (or0 (vote_count c1) + 1)"
    using guest_vote_first_effect [OF cid ne c1, of trg] by blast
  have two: "or0 (vote_count c1) + 1 = or0 (vote_count c) + 2"
    using n1 by (simp add: or0_def)
  show ?thesis
    using f1 v1 s1 c1 n1 f2 v2 c2 n2 two
    by (simp add: guest_votes_post_def answering_def)
qed

text \<open>
  C10, witness: device phone-1 already has an upvote row under its derived id on
  complaint c1 (three votes); its next two requests each add a null-user row, giving
  four and then five votes, although the second handler would have toggled the row.
\<close>

theorem guest_votes_served_by_first_handler_witness:
  "\<exists>d1 d2.
       guest_votes_post (\<lambda>s. ''1f32bd35ae4cd1e79903f871676f9a7b'') ''temp_0_x'' no_trigger
         \<lparr>gr_complaintId = Some ''c1'', gr_deviceId = Some ''phone-1''\<rparr>
         \<lparr>complaints = [''c1'' \<mapsto> \<lparr>complaint_status = ''pending'', vote_count = Some 3\<rparr>],
          complaint_workflow = Map.empty,
          complaint_votes = [\<lparr>vote_id = 0, vote_complaint_id = ''c1'',
                               vote_user_id = Some ''1f32bd35-ae4c-41e7-9903-f871676f9a7b'',
                               vote_type = ''upvote''\<rparr>],
          vote_seq = 1, complaint_updates = []\<rparr>
       = Some (d1, GuestOk ''Vote added successfully'' ''c1'' ''upvote'' 4 True)
     \<and> complaint_votes d1 =
          [\<lparr>vote_id = 0, vote_complaint_id = ''c1'',
            vote_user_id = Some ''1f32bd35-ae4c-41e7-9903-f871676f9a7b'', vote_type = ''upvote''\<rparr>,
           \<lparr>vote_id = 1, vote_complaint_id = ''c1'', vote_user_id = None, vote_type = ''upvote''\<rparr>]
     \<and> guest_votes_post (\<lambda>s. ''1f32bd35ae4cd1e79903f871676f9a7b'') ''temp_0_x'' no_trigger
         \<lparr>gr_complaintId = Some ''c1'', gr_deviceId = Some ''phone-1''\<rparr> d1
       = Some (d2, GuestOk ''Vote added successfully'' ''c1'' ''upvote'' 5 True)
     \<and> map_option vote_count (complaints d2 ''c1'') = Some (Some 5)"
  using guest_votes_served_by_first_handler
    [of "\<lparr>gr_complaintId = Some ''c1'', gr_deviceId = Some ''phone-1''\<rparr>" "''c1''"
        "\<lparr>complaints = [''c1'' \<mapsto> \<lparr>complaint_status = ''pending'', vote_count = Some 3\<rparr>],
          complaint_workflow = Map.empty,
          complaint_votes = [\<lparr>vote_id = 0, vote_complaint_id = ''c1'',
                               vote_user_id = Some ''1f32bd35-ae4c-41e7-9903-f871676f9a7b'',
                               vote_type = ''upvote''\<rparr>],
          vote_seq = 1, complaint_updates = []\<rparr>"
        "\<lparr>complaint_status = ''pending'', vote_count = Some 3\<rparr>"
        "\<lambda>s. ''1f32bd35ae4cd1e79903f871676f9a7b''" "''temp_0_x''" no_trigger
        "answering (guest_vote_second (\<lambda>s. ''1f32bd35ae4cd1e79903f871676f9a7b'') ''temp_0_x'' no_trigger)"]
  by (auto simp: or0_def)

section \<open>Priority fusion engine: totality, fallback, levels\<close>









text \<open>
  C5 (as the code has it). On the two-factor path the total score is 0.6 times the
  location score plus 0.4 times the image score; the image score is the
  \<open>data.priorityScore\<close> of the image validation when that is present, and 0
  otherwise (the validation's \<open>confidence\<close> is not read); the location score is 0
  when no location data is given.
\<close>

theorem two_factor_total:
  assumes "comprehensive_attempt svc iv ld category = None"
    and "two_factor svc iv ld category = Inr pa"
  shows "calculateComprehensivePriority svc iv ld category = Inr pa
     \<and> pa_totalScore pa = 6 / 10 * pa_locationScore pa + 4 / 10 * pa_imageScore pa
     \<and> pa_imageScore pa =
         (case iv of None \<Rightarrow> 0 | Some v \<Rightarrow> (case iv_data_priorityScore v of None \<Rightarrow> 0 | Some p \<Rightarrow> p))
     \<and> (ld = None \<longrightarrow> pa_locationScore pa = 0)"
  using assms
  by (auto simp: calculateComprehensivePriority_def two_factor_def Let_def image_priority_score_def
        num_or0_def split: option.splits sum.splits)

text \<open>
  C5, witness: location score 0.5, image priority score 0.75 (confidence 0.9): total 0.6.
\<close>

theorem two_factor_total_witness:
  "\<exists>pa. calculateComprehensivePriority
           \<lparr>svc_comprehensive = (\<lambda>la lo iv c. Inl (Exn ''timeout'')),
            svc_location = (\<lambda>la lo c. Inr \<lparr>lp_priorityScore = Some (1 / 2), lp_reasoning = None,
                                            lp_totalFacilities = None\<rparr>)\<rparr>
           (Some \<lparr>iv_confidence = Some (9 / 10), iv_modelConfidence = None, iv_allowUpload = True,
                  iv_data_priorityScore = Some (3 / 4)\<rparr>)
           (Some \<lparr>ld_latitude = Some 13, ld_longitude = Some 80, ld_address = None\<rparr>) ''pothole'' = Inr pa
        \<and> pa_locationScore pa = 1 / 2 \<and> pa_imageScore pa = 3 / 4 \<and> pa_totalScore pa = 6 / 10"
proof -
  let ?svc = "\<lparr>svc_comprehensive = (\<lambda>la lo iv c. Inl (Exn ''timeout'')),
            svc_location = (\<lambda>la lo c. Inr \<lparr>lp_priorityScore = Some (1 / 2), lp_reasoning = None,
                                            lp_totalFacilities = (None :: nat option)\<rparr>)\<rparr>"
  let ?iv = "Some \<lparr>iv_confidence = Some (9 / 10), iv_modelConfidence = None, iv_allowUpload = True,
                  iv_data_priorityScore = Some (3 / 4)\<rparr>"
  let ?ld = "Some \<lparr>ld_latitude = Some 13, ld_longitude = Some 80, ld_address = None\<rparr>"
  have ca: "comprehensive_attempt ?svc ?iv ?ld ''pothole'' = None"
    by (simp add: comprehensive_attempt_def)
  obtain pa where tf: "two_factor ?svc ?iv ?ld ''pothole'' = Inr pa" and loc: "pa_locationScore pa = 1 / 2"
    by (simp add: two_factor_def Let_def num_or0_def)
  from two_factor_total [OF ca tf] loc
  have "calculateComprehensivePriority ?svc ?iv ?ld ''pothole'' = Inr pa"
    and "pa_imageScore pa = 3 / 4" and "pa_totalScore pa = 6 / 10"
    by simp_all
  then show ?thesis using loc by (intro exI [of _ pa]) simp
qed

text \<open>
  C5, counterexample: an image validation with confidence 0.9 and no
  \<open>data.priorityScore\<close>, no location data. The image score and the total are 0;
  with the confidence as image score they would be 0.9 and 0.36.
\<close>

theorem image_score_counterexample:
  "calculateComprehensivePriority
      \<lparr>svc_comprehensive = (\<lambda>la lo iv c. Inl (Exn ''unavailable'')),
       svc_location = (\<lambda>la lo c. Inl (Exn ''unavailable''))\<rparr>
      (Some \<lparr>iv_confidence = Some (9 / 10), iv_modelConfidence = None, iv_allowUpload = True,
             iv_data_priorityScore = None\<rparr>)
      None ''pothole''
    = Inr \<lparr>pa_totalScore = 0, pa_priorityLevel = ''LOW'', pa_locationScore = 0, pa_imageScore = 0,
           pa_reasoning = ''LOW priority assigned. Category '' @ [CHR 0x27] @ ''pothole'' @ [CHR 0x27] @
                          '' is considered high-priority. '',
           pa_facilitiesCount = 0\<rparr>
   \<and> spec_image_score
        (Some \<lparr>iv_confidence = Some (9 / 10), iv_modelConfidence = None, iv_allowUpload = True,
               iv_data_priorityScore = None\<rparr>) = 9 / 10"
  by (simp add: calculateComprehensivePriority_def comprehensive_attempt_def two_factor_def
        image_priority_score_def num_or0_def priority_level_of_def generatePriorityReasoning_def
        getCategoryImportance_def categoryImportance_def spec_image_score_def Let_def)

section \<open>Emotion analyzer: fusion and range\<close>

text \<open>
  C7. The fused score is 0.4 urgency + 0.3 anger + 0.2 concern + 0.1 frustration, and
  when concern exceeds 0.3 it is multiplied by 1.2 and capped at 1.
\<close>

theorem emotion_score_formula:
  "calculateEmotionScore e =
     (let base = 4 / 10 * em_urgency e + 3 / 10 * em_anger e + 2 / 10 * em_concern e
                 + 1 / 10 * em_frustration e
      in if em_concern e > 3 / 10 then min (base * (12 / 10)) 1 else base)"
  by (simp add: calculateEmotionScore_def emotion_entries_def emotion_weights_def Let_def algebra_simps)

text \<open>
  C7, witness: three emotion vectors, with concern above 0.3 (amplified), amplified
  and capped, and concern exactly 0.3 (not amplified).
\<close>

theorem emotion_score_formula_witness:
  "calculateEmotionScore \<lparr>em_anger = 1 / 2, em_urgency = 1, em_frustration = 0, em_concern = 6 / 10\<rparr> = 804 / 1000
   \<and> calculateEmotionScore \<lparr>em_anger = 1, em_urgency = 1, em_frustration = 1, em_concern = 1\<rparr> = 1
   \<and> calculateEmotionScore \<lparr>em_anger = 0, em_urgency = 1 / 4, em_frustration = 0, em_concern = 3 / 10\<rparr> = 16 / 100"
  using emotion_score_formula [of "\<lparr>em_anger = 1 / 2, em_urgency = 1, em_frustration = 0, em_concern = 6 / 10\<rparr>"]
    emotion_score_formula [of "\<lparr>em_anger = 1, em_urgency = 1, em_frustration = 1, em_concern = 1\<rparr>"]
    emotion_score_formula [of "\<lparr>em_anger = 0, em_urgency = 1 / 4, em_frustration = 0, em_concern = 3 / 10\<rparr>"]
  by (simp add: Let_def)


lemma calculateTextScore_nonneg: "0 \<le> b \<Longrightarrow> 0 \<le> calculateTextScore t ws b"
  by (simp add: calculateTextScore_def)
















section \<open>Complaint submission: the persisted score columns\<close>














lemma floor_numeral_div: "\<lfloor>numeral a / numeral b :: rat\<rfloor> = numeral a div numeral b"
  by (metis floor_divide_of_int_eq of_int_numeral)

text \<open>
  The handler rounds each score to two decimals before the filter sees it. The
  filter's own rounding, on a value just below 10 that was not rounded before, would
  produce 10.
\<close>

lemma filter_alone_rounds_up: "clamp_score (JNum (9996 / 1000)) = JNum 10"
  by (simp add: clamp_score_def toFixed_num_def toFixed_units_def floor_numeral_div)



end
